theory Spec2Isabelle
  imports Complex_Main "HOL-Library.Word" "HOL-Library.List_Lexorder" "HOL-Library.Multiset"
begin

section \<open>Data model of \<^verbatim>\<open>slicer.ts\<close>\<close>

text \<open>
  A JavaScript string is a sequence of UTF-16 code units, and \<^verbatim>\<open>charCodeAt\<close>,
  \<^verbatim>\<open>String.fromCharCode\<close> and the comparison of strings all work on code units.
  Strings are therefore lists of 16-bit words, ordered lexicographically.
  A JavaScript \<^verbatim>\<open>number\<close> is modelled by a real: the arithmetic of the engine
  (sums, products with the weights, halving, comparison) is taken exactly; rounding,
  infinities and NaN of IEEE doubles are outside this model.
\<close>

type_synonym js_string = "16 word list"

definition str :: "string \<Rightarrow> js_string" where
  "str s = map of_char s"

record KeyRange =
  start_key :: js_string
  end_key :: js_string
  data_access_frequency :: real
  storage_utilization :: real
  request_processing_load :: real
  memory_usage :: real

record ServerReport =
  instance_id :: js_string
  total_storage_utilization :: real
  total_request_processing_load :: real
  total_data_access_frequency :: real
  total_memory_usage :: real
  max_cpu_capacity :: real
  max_memory_capacity :: real
  key_ranges :: "KeyRange list"

text \<open>
  \<^verbatim>\<open>KeyRange & { destination_instance?: string }\<close>: the key range extended by a
  destination. \<^verbatim>\<open>splitKeyRange\<close>, the only producer of such values, always assigns
  the field.
\<close>

record KeyRangeDest = KeyRange +
  destination_instance :: js_string

record MigrationPlan =
  start_key :: js_string
  end_key :: js_string
  source_instance :: js_string
  destination_instance :: js_string

record Weights =
  cpuWeight :: real
  memoryWeight :: real
  storageWeight :: real
  accessFrequencyWeight :: real
  migrationPenalty :: real

definition weights :: Weights where
  "weights = \<lparr>cpuWeight = 0.5, memoryWeight = 0.5, storageWeight = 0.30000000000000004,
     accessFrequencyWeight = 0.1, migrationPenalty = 1\<rparr>"

text \<open>Reading a property of \<^verbatim>\<open>undefined\<close> throws a \<^verbatim>\<open>TypeError\<close>.\<close>

datatype error = TypeError

section \<open>The load scorer\<close>

definition calculateCombinedLoad :: "ServerReport \<Rightarrow> Weights \<Rightarrow> real" where
  "calculateCombinedLoad server w =
     total_request_processing_load server * cpuWeight w +
     total_storage_utilization server * storageWeight w +
     total_data_access_frequency server * accessFrequencyWeight w +
     total_memory_usage server * memoryWeight w"

definition calculateKeyRangeLoad :: "'a KeyRange_scheme \<Rightarrow> Weights \<Rightarrow> real" where
  "calculateKeyRangeLoad keyRange w =
     request_processing_load keyRange * cpuWeight w +
     storage_utilization keyRange * storageWeight w +
     data_access_frequency keyRange * accessFrequencyWeight w +
     memory_usage keyRange * memoryWeight w"

text \<open>The fixed-weight variant of the engine (the first module of the source).\<close>

definition calculateCombinedLoad_fixed :: "ServerReport \<Rightarrow> real" where
  "calculateCombinedLoad_fixed server =
     total_request_processing_load server +
     total_storage_utilization server * 0.5 +
     total_data_access_frequency server * 0.2 +
     total_memory_usage server * 0.3"

definition calculateKeyRangeLoad_fixed :: "'a KeyRange_scheme \<Rightarrow> real" where
  "calculateKeyRangeLoad_fixed keyRange =
     request_processing_load keyRange +
     storage_utilization keyRange * 0.5 +
     data_access_frequency keyRange * 0.2 +
     memory_usage keyRange * 0.3"

section \<open>The split/move policy\<close>

definition shouldSplitKeyRange :: "'a KeyRange_scheme \<Rightarrow> ServerReport \<Rightarrow> bool" where
  "shouldSplitKeyRange keyRange server =
     (let projectedCpuUsage = total_request_processing_load server + request_processing_load keyRange;
          projectedMemoryUsage = total_memory_usage server + memory_usage keyRange
      in projectedCpuUsage > max_cpu_capacity server \<or>
         projectedMemoryUsage > max_memory_capacity server)"

definition canMoveKeyRange :: "'a KeyRange_scheme \<Rightarrow> ServerReport \<Rightarrow> bool" where
  "canMoveKeyRange keyRange server =
     (let projectedCpuUsage = total_request_processing_load server + request_processing_load keyRange;
          projectedMemoryUsage = total_memory_usage server + memory_usage keyRange
      in projectedCpuUsage \<le> max_cpu_capacity server \<and>
         projectedMemoryUsage \<le> max_memory_capacity server)"

section \<open>The range splitter\<close>

text \<open>
  \<^verbatim>\<open>s.charCodeAt(0)\<close> is the first code unit of \<^verbatim>\<open>s\<close>, and NaN (here
  \<open>None\<close>) on the empty string.
\<close>

definition charCodeAt0 :: "js_string \<Rightarrow> nat option" where
  "charCodeAt0 s = (case s of [] \<Rightarrow> None | c # _ \<Rightarrow> Some (unat c))"

text \<open>
  \<^verbatim>\<open>String.fromCharCode(n)\<close> is the one-unit string of \<open>n\<close> modulo \<open>2^16\<close>,
  and of \<open>0\<close> when \<open>n\<close> is NaN; a sum with NaN, its half and its floor are NaN.
\<close>

definition fromCharCode :: "nat option \<Rightarrow> js_string" where
  "fromCharCode n = (case n of None \<Rightarrow> [0] | Some k \<Rightarrow> [of_nat k])"

definition calculateMidKey :: "js_string \<Rightarrow> js_string \<Rightarrow> js_string" where
  "calculateMidKey startKey endKey =
     (let startChar = charCodeAt0 startKey;
          endChar = charCodeAt0 endKey;
          midChar = fromCharCode
            (case (startChar, endChar) of
               (Some a, Some b) \<Rightarrow> Some ((a + b) div 2)
             | _ \<Rightarrow> None)
      in midChar)"

text \<open>
  \<^verbatim>\<open>availableServers.sort((a, b) => load(a) - load(b))\<close> sorts the caller's array
  in place, stably and ascending by load; the sorted array is returned as the new
  content of the caller's array, next to the result. \<^verbatim>\<open>sortedServers[0].instance_id\<close>
  throws on an empty array. \<^verbatim>\<open>sortedServers[1]?.instance_id || sortedServers[0].instance_id\<close>
  takes the second identifier unless there is no second server or its identifier is
  the empty string, which is falsy.
\<close>

definition splitKeyRange ::
  "KeyRange \<Rightarrow> ServerReport list \<Rightarrow> Weights \<Rightarrow>
     ServerReport list \<times> (error + KeyRangeDest \<times> KeyRangeDest)" where
  "splitKeyRange keyRange availableServers w =
     (let midKey = calculateMidKey (KeyRange.start_key keyRange) (KeyRange.end_key keyRange);
          sortedServers = sort_key (\<lambda>a. calculateCombinedLoad a w) availableServers
      in case sortedServers of
           [] \<Rightarrow> (sortedServers, Inl TypeError)
         | s0 # rest \<Rightarrow>
             (let range1 =
                    \<lparr>KeyRange.start_key = KeyRange.start_key keyRange,
                     KeyRange.end_key = midKey,
                     data_access_frequency = data_access_frequency keyRange / 2,
                     storage_utilization = storage_utilization keyRange / 2,
                     request_processing_load = request_processing_load keyRange / 2,
                     memory_usage = memory_usage keyRange / 2,
                     KeyRangeDest.destination_instance = instance_id s0\<rparr>;
                  range2 =
                    \<lparr>KeyRange.start_key = midKey,
                     KeyRange.end_key = KeyRange.end_key keyRange,
                     data_access_frequency = data_access_frequency keyRange / 2,
                     storage_utilization = storage_utilization keyRange / 2,
                     request_processing_load = request_processing_load keyRange / 2,
                     memory_usage = memory_usage keyRange / 2,
                     KeyRangeDest.destination_instance =
                       (case rest of
                          [] \<Rightarrow> instance_id s0
                        | s1 # _ \<Rightarrow>
                            if instance_id s1 \<noteq> [] then instance_id s1 else instance_id s0)\<rparr>
              in (sortedServers, Inr (range1, range2))))"

definition createMigrationPlan :: "'a KeyRange_scheme \<Rightarrow> js_string \<Rightarrow> js_string \<Rightarrow> MigrationPlan" where
  "createMigrationPlan keyRange source destination =
     \<lparr>start_key = KeyRange.start_key keyRange,
      end_key = KeyRange.end_key keyRange,
      source_instance = source,
      destination_instance = destination\<rparr>"

section \<open>The balancer\<close>

text \<open>
  The loop over the servers, with the two running candidates (\<open>None\<close> is
  \<^verbatim>\<open>null\<close>).
\<close>

fun scanServers ::
  "Weights \<Rightarrow> ServerReport list \<Rightarrow> ServerReport option \<times> ServerReport option \<Rightarrow>
     ServerReport option \<times> ServerReport option" where
  "scanServers w [] acc = acc"
| "scanServers w (server # rest) (mostLoadedServer, leastLoadedServer) =
     scanServers w rest
       ((case mostLoadedServer of
           None \<Rightarrow> Some server
         | Some m \<Rightarrow>
             if calculateCombinedLoad server w > calculateCombinedLoad m w
             then Some server else Some m),
        (case leastLoadedServer of
           None \<Rightarrow> Some server
         | Some l \<Rightarrow>
             if calculateCombinedLoad server w < calculateCombinedLoad l w
             then Some server else Some l))"

text \<open>
  \<^verbatim>\<open>key_ranges.reduce((prev, current) => load(current) > load(prev) ? current : prev, key_ranges[0])\<close>;
  on an empty array the initial value, and so the result, is \<^verbatim>\<open>undefined\<close>
  (here \<open>None\<close>).
\<close>

definition keyRangeToMove :: "KeyRange list \<Rightarrow> Weights \<Rightarrow> KeyRange option" where
  "keyRangeToMove ranges w =
     (case ranges of
        [] \<Rightarrow> None
      | first # _ \<Rightarrow>
          Some (foldl (\<lambda>prev current.
                  if calculateKeyRangeLoad current w > calculateKeyRangeLoad prev w
                  then current else prev) first ranges))"

text \<open>
  The balancer returns the content of the caller's array after the call and either
  the exception thrown or the list of plans. No statement of the source assigns to a
  field of a report or of a key range, so the array is the only object that changes.
\<close>

definition slicerLoadBalancer ::
  "ServerReport list \<Rightarrow> Weights \<Rightarrow> ServerReport list \<times> (error + MigrationPlan list)" where
  "slicerLoadBalancer servers w =
     (case scanServers w servers (None, None) of
        (Some mostLoadedServer, Some leastLoadedServer) \<Rightarrow>
          (let loadDifference =
                 calculateCombinedLoad mostLoadedServer w - calculateCombinedLoad leastLoadedServer w
           in if loadDifference > 0.1 * calculateCombinedLoad mostLoadedServer w then
                (case keyRangeToMove (key_ranges mostLoadedServer) w of
                   None \<Rightarrow> (servers, Inl TypeError)
                 | Some keyRange \<Rightarrow>
                     if shouldSplitKeyRange keyRange leastLoadedServer then
                       (case splitKeyRange keyRange servers w of
                          (servers', Inl e) \<Rightarrow> (servers', Inl e)
                        | (servers', Inr (range1, range2)) \<Rightarrow>
                            (servers',
                             Inr [createMigrationPlan range1 (instance_id mostLoadedServer)
                                    (KeyRangeDest.destination_instance range1),
                                  createMigrationPlan range2 (instance_id mostLoadedServer)
                                    (KeyRangeDest.destination_instance range2)]))
                     else if canMoveKeyRange keyRange leastLoadedServer then
                       (servers,
                        Inr [createMigrationPlan keyRange (instance_id mostLoadedServer)
                               (instance_id leastLoadedServer)])
                     else (servers, Inr []))
              else (servers, Inr []))
      | _ \<Rightarrow> (servers, Inr []))"

section \<open>Notions used to state the properties\<close>

text \<open>
  The values of the local variables \<^verbatim>\<open>mostLoadedServer\<close> and
  \<^verbatim>\<open>leastLoadedServer\<close> after the loop, and the test of step 2 of the balancer.
\<close>

definition mostLoaded :: "ServerReport list \<Rightarrow> Weights \<Rightarrow> ServerReport option" where
  "mostLoaded servers w = fst (scanServers w servers (None, None))"

definition leastLoaded :: "ServerReport list \<Rightarrow> Weights \<Rightarrow> ServerReport option" where
  "leastLoaded servers w = snd (scanServers w servers (None, None))"

definition imbalanceDetected :: "ServerReport list \<Rightarrow> Weights \<Rightarrow> bool" where
  "imbalanceDetected servers w =
     (case scanServers w servers (None, None) of
        (Some m, Some l) \<Rightarrow>
          calculateCombinedLoad m w - calculateCombinedLoad l w > 0.1 * calculateCombinedLoad m w
      | _ \<Rightarrow> False)"

text \<open>
  The specification's words for the selection: the first element, in input order, whose
  score is the maximum (the minimum) of all scores.
\<close>

definition firstMaximal :: "('a \<Rightarrow> real) \<Rightarrow> 'a list \<Rightarrow> 'a option" where
  "firstMaximal f xs = find (\<lambda>x. f x = Max (f ` set xs)) xs"

definition firstMinimal :: "('a \<Rightarrow> real) \<Rightarrow> 'a list \<Rightarrow> 'a option" where
  "firstMinimal f xs = find (\<lambda>x. f x = Min (f ` set xs)) xs"

text \<open>
  The specification's words for the score: one weighted sum of a four-dimensional usage
  vector (cpu, storage, access, memory).
\<close>

definition score :: "real \<Rightarrow> real \<Rightarrow> real \<Rightarrow> real \<Rightarrow> Weights \<Rightarrow> real" where
  "score cpu storage access memory w =
     cpu * cpuWeight w + storage * storageWeight w +
     access * accessFrequencyWeight w + memory * memoryWeight w"

text \<open>The weights that the fixed-weight variant has built in.\<close>

definition fixedWeights :: Weights where
  "fixedWeights = \<lparr>cpuWeight = 1, memoryWeight = 0.3, storageWeight = 0.5,
     accessFrequencyWeight = 0.2, migrationPenalty = 1\<rparr>"

text \<open>
  The specification's data model: the usage totals of a report and the weights of the
  scorer are non-negative reals.
\<close>

definition nonNegativeTotals :: "ServerReport \<Rightarrow> bool" where
  "nonNegativeTotals server =
     (0 \<le> total_request_processing_load server \<and> 0 \<le> total_storage_utilization server
      \<and> 0 \<le> total_data_access_frequency server \<and> 0 \<le> total_memory_usage server)"

definition nonNegativeWeights :: "Weights \<Rightarrow> bool" where
  "nonNegativeWeights w =
     (0 \<le> cpuWeight w \<and> 0 \<le> memoryWeight w \<and> 0 \<le> storageWeight w
      \<and> 0 \<le> accessFrequencyWeight w)"

text \<open>Key intervals, as the specification reads a range.\<close>

definition closedInterval :: "js_string \<Rightarrow> js_string \<Rightarrow> js_string set" where
  "closedInterval lo hi = {k. lo \<le> k \<and> k \<le> hi}"

definition halfOpenInterval :: "js_string \<Rightarrow> js_string \<Rightarrow> js_string set" where
  "halfOpenInterval lo hi = {k. lo \<le> k \<and> k < hi}"

section \<open>Fixtures\<close>

definition mkKeyRange :: "string \<Rightarrow> string \<Rightarrow> real \<Rightarrow> real \<Rightarrow> real \<Rightarrow> real \<Rightarrow> KeyRange" where
  "mkKeyRange s e access storage load memory =
     \<lparr>KeyRange.start_key = str s, KeyRange.end_key = str e, data_access_frequency = access,
      storage_utilization = storage, request_processing_load = load, memory_usage = memory\<rparr>"

text \<open>The two reports of the test \<^verbatim>\<open>can do a simple migration\<close>.\<close>

definition server1234 :: ServerReport where
  "server1234 =
     \<lparr>instance_id = str ''server-1234'', total_storage_utilization = 800,
      total_request_processing_load = 4450, total_data_access_frequency = 15500,
      total_memory_usage = 2500, max_cpu_capacity = 5000, max_memory_capacity = 3000,
      key_ranges = [mkKeyRange ''a000'' ''a999'' 12000 500 3500 1500,
                    mkKeyRange ''b000'' ''b999'' 3000 200 800 500,
                    mkKeyRange ''c000'' ''c999'' 500 100 150 500]\<rparr>"

definition server5678 :: ServerReport where
  "server5678 =
     \<lparr>instance_id = str ''server-5678'', total_storage_utilization = 400,
      total_request_processing_load = 2000, total_data_access_frequency = 8000,
      total_memory_usage = 1000, max_cpu_capacity = 4000, max_memory_capacity = 2000,
      key_ranges = [mkKeyRange ''d000'' ''d999'' 4000 150 1200 300,
                    mkKeyRange ''e000'' ''e999'' 2000 100 600 200,
                    mkKeyRange ''f000'' ''f999'' 2000 150 200 500]\<rparr>"

definition reports :: "ServerReport list" where
  "reports = [server1234, server5678]"

definition hotRange :: KeyRange where
  "hotRange = mkKeyRange ''a000'' ''a999'' 12000 500 3500 1500"

text \<open>The two halves of the hot range, as the splitter builds them on \<open>reports\<close>.\<close>

definition hotRangeA :: KeyRangeDest where
  "hotRangeA =
     \<lparr>KeyRange.start_key = str ''a000'', KeyRange.end_key = str ''a'',
      data_access_frequency = 6000, storage_utilization = 250,
      request_processing_load = 1750, memory_usage = 750,
      KeyRangeDest.destination_instance = str ''server-5678''\<rparr>"

definition hotRangeB :: KeyRangeDest where
  "hotRangeB =
     \<lparr>KeyRange.start_key = str ''a'', KeyRange.end_key = str ''a999'',
      data_access_frequency = 6000, storage_utilization = 250,
      request_processing_load = 1750, memory_usage = 750,
      KeyRangeDest.destination_instance = str ''server-1234''\<rparr>"

text \<open>A range whose keys are single characters, and its two halves.\<close>

definition orderedRange :: KeyRange where
  "orderedRange = mkKeyRange ''a'' ''c'' 12000 500 3500 1500"

definition orderedRangeA :: KeyRangeDest where
  "orderedRangeA =
     \<lparr>KeyRange.start_key = str ''a'', KeyRange.end_key = str ''b'',
      data_access_frequency = 6000, storage_utilization = 250,
      request_processing_load = 1750, memory_usage = 750,
      KeyRangeDest.destination_instance = str ''server-5678''\<rparr>"

definition orderedRangeB :: KeyRangeDest where
  "orderedRangeB =
     \<lparr>KeyRange.start_key = str ''b'', KeyRange.end_key = str ''c'',
      data_access_frequency = 6000, storage_utilization = 250,
      request_processing_load = 1750, memory_usage = 750,
      KeyRangeDest.destination_instance = str ''server-1234''\<rparr>"

text \<open>The second server with room for the whole hot range.\<close>

definition roomy5678 :: ServerReport where
  "roomy5678 = server5678\<lparr>max_cpu_capacity := 6000, max_memory_capacity := 3000\<rparr>"

definition moveReports :: "ServerReport list" where
  "moveReports = [server1234, roomy5678]"

text \<open>Two servers with the same score.\<close>

definition balancedReports :: "ServerReport list" where
  "balancedReports = [server5678, server5678\<lparr>instance_id := str ''server-9999''\<rparr>]"

text \<open>A server whose identifier is the empty string, loaded between the two others.\<close>

definition anonymousServer :: ServerReport where
  "anonymousServer = server5678\<lparr>instance_id := [], total_request_processing_load := 3000\<rparr>"

lemmas fixture_defs = reports_def server1234_def server5678_def mkKeyRange_def weights_def str_def
  hotRange_def hotRangeA_def hotRangeB_def orderedRange_def orderedRangeA_def orderedRangeB_def
  roomy5678_def moveReports_def balancedReports_def anonymousServer_def

lemmas engine_defs = slicerLoadBalancer_def calculateCombinedLoad_def keyRangeToMove_def
  calculateKeyRangeLoad_def shouldSplitKeyRange_def canMoveKeyRange_def splitKeyRange_def
  calculateMidKey_def charCodeAt0_def fromCharCode_def createMigrationPlan_def Let_def

section \<open>The loop over the servers\<close>

lemma firstMaximal_keep:
  fixes f :: "'a \<Rightarrow> real"
  assumes "f y \<le> f m"
  shows "firstMaximal f (m # y # xs) = firstMaximal f (m # xs)"
  using assms unfolding firstMaximal_def
  by (cases "xs = []") (auto simp: max_def)

lemma firstMaximal_replace:
  fixes f :: "'a \<Rightarrow> real"
  assumes "f m < f y"
  shows "firstMaximal f (m # y # xs) = firstMaximal f (y # xs)"
  using assms unfolding firstMaximal_def
  by (cases "xs = []") (auto simp: max_def)

lemma firstMinimal_keep:
  fixes f :: "'a \<Rightarrow> real"
  assumes "f m \<le> f y"
  shows "firstMinimal f (m # y # xs) = firstMinimal f (m # xs)"
  using assms unfolding firstMinimal_def
  by (cases "xs = []") (auto simp: min_def)

lemma firstMinimal_replace:
  fixes f :: "'a \<Rightarrow> real"
  assumes "f y < f m"
  shows "firstMinimal f (m # y # xs) = firstMinimal f (y # xs)"
  using assms unfolding firstMinimal_def
  by (cases "xs = []") (auto simp: min_def)

text \<open>With both candidates set, the loop keeps the first maximal and the first minimal server.\<close>

lemma scanServers_Some:
  "scanServers w xs (Some m, Some l) =
     (firstMaximal (\<lambda>s. calculateCombinedLoad s w) (m # xs),
      firstMinimal (\<lambda>s. calculateCombinedLoad s w) (l # xs))"
proof (induction xs arbitrary: m l)
  case Nil
  show ?case by (simp add: firstMaximal_def firstMinimal_def)
next
  case (Cons x xs)
  show ?case
    by (simp add: Cons.IH firstMaximal_keep firstMaximal_replace firstMinimal_keep
        firstMinimal_replace not_less)
qed

lemma scanServers_first:
  "scanServers w servers (None, None) =
     (firstMaximal (\<lambda>s. calculateCombinedLoad s w) servers,
      firstMinimal (\<lambda>s. calculateCombinedLoad s w) servers)"
  by (cases servers) (simp_all add: scanServers_Some, simp_all add: firstMaximal_def firstMinimal_def)

lemma scanServers_mem:
  "\<exists>m' l'. scanServers w xs (Some m, Some l) = (Some m', Some l')
      \<and> m' \<in> set (m # xs) \<and> l' \<in> set (l # xs)"
proof (induction xs arbitrary: m l)
  case Nil
  show ?case by simp
next
  case (Cons x xs)
  let ?m = "if calculateCombinedLoad x w > calculateCombinedLoad m w then x else m"
  let ?l = "if calculateCombinedLoad x w < calculateCombinedLoad l w then x else l"
  have step: "scanServers w (x # xs) (Some m, Some l) = scanServers w xs (Some ?m, Some ?l)"
    by simp
  from Cons.IH [of ?m ?l] obtain m' l' where
    "scanServers w xs (Some ?m, Some ?l) = (Some m', Some l')"
    "m' \<in> set (?m # xs)" "l' \<in> set (?l # xs)" by blast
  then show ?case unfolding step by (auto split: if_splits)
qed

text \<open>On a fleet that is not empty both candidates are servers of the fleet.\<close>

lemma scanServers_nonempty:
  assumes "servers \<noteq> []"
  shows "\<exists>m l. scanServers w servers (None, None) = (Some m, Some l)
           \<and> m \<in> set servers \<and> l \<in> set servers"
proof -
  from assms obtain x xs where sv: "servers = x # xs" by (cases servers) auto
  have "scanServers w servers (None, None) = scanServers w xs (Some x, Some x)"
    by (simp add: sv)
  with scanServers_mem [of w xs x x] show ?thesis by (auto simp: sv)
qed

section \<open>The splitter and the balancer, case by case\<close>

lemma sort_key_nonempty:
  fixes f :: "'a \<Rightarrow> real"
  assumes "xs \<noteq> []"
  shows "\<exists>y ys. sort_key f xs = y # ys"
proof -
  have "length (sort_key f xs) = length xs" by simp
  with assms have "sort_key f xs \<noteq> []" by (metis length_0_conv)
  then show ?thesis by (cases "sort_key f xs") auto
qed

lemma sort_key_head_least:
  fixes f :: "'a \<Rightarrow> real"
  assumes "xs \<noteq> []"
  shows "\<forall>x \<in> set xs. f (sort_key f xs ! 0) \<le> f x"
proof -
  from sort_key_nonempty [OF assms, of f] obtain y ys where ys: "sort_key f xs = y # ys"
    by blast
  have "sorted (map f (sort_key f xs))" by (rule sorted_sort_key)
  then have "\<forall>x \<in> set (sort_key f xs). f y \<le> f x" unfolding ys by auto
  then show ?thesis by (simp add: ys [symmetric]) (simp add: ys)
qed

text \<open>The splitter throws on the empty fleet only.\<close>

lemma splitKeyRange_nonempty:
  assumes "servers \<noteq> []"
  shows "\<exists>r1 r2. splitKeyRange kr servers w =
           (sort_key (\<lambda>a. calculateCombinedLoad a w) servers, Inr (r1, r2))"
proof -
  from sort_key_nonempty [OF assms, of "\<lambda>a. calculateCombinedLoad a w"]
  obtain y ys where "sort_key (\<lambda>a. calculateCombinedLoad a w) servers = y # ys" by blast
  then show ?thesis
    by (auto simp: splitKeyRange_def Let_def split: list.splits)
qed

lemma splitKeyRange_empty: "splitKeyRange kr [] w = ([], Inl TypeError)"
  by (simp add: splitKeyRange_def)

text \<open>On an empty key the midpoint is the character of code \<open>0\<close>.\<close>

lemma calculateMidKey_empty:
  "calculateMidKey [] endKey = [0]" "calculateMidKey startKey [] = [0]"
  by (simp_all add: calculateMidKey_def charCodeAt0_def fromCharCode_def split: list.splits)

lemma calculateMidKey_first_chars:
  "calculateMidKey (c # cs) (d # ds) = [of_nat ((unat c + unat d) div 2)]"
  by (simp add: calculateMidKey_def charCodeAt0_def fromCharCode_def)

lemma midpoint_no_wrap:
  fixes c d :: "16 word"
  shows "unat (of_nat ((unat c + unat d) div 2) :: 16 word) = (unat c + unat d) div 2"
proof -
  have "unat c < 2 ^ 16" "unat d < 2 ^ 16"
    using unsigned_less [of c] unsigned_less [of d] by simp_all
  then have "(unat c + unat d) div 2 < 2 ^ 16" by simp
  then show ?thesis by (simp add: unat_of_nat)
qed

text \<open>The balancer once the loop has found its two servers.\<close>

lemma balancer_unfold:
  assumes "scanServers w servers (None, None) = (Some most, Some least)"
  shows "slicerLoadBalancer servers w =
     (if calculateCombinedLoad most w - calculateCombinedLoad least w
           > 0.1 * calculateCombinedLoad most w then
        (case keyRangeToMove (key_ranges most) w of
           None \<Rightarrow> (servers, Inl TypeError)
         | Some keyRange \<Rightarrow>
             if shouldSplitKeyRange keyRange least then
               (case splitKeyRange keyRange servers w of
                  (servers', Inl e) \<Rightarrow> (servers', Inl e)
                | (servers', Inr (range1, range2)) \<Rightarrow>
                    (servers',
                     Inr [createMigrationPlan range1 (instance_id most)
                            (KeyRangeDest.destination_instance range1),
                          createMigrationPlan range2 (instance_id most)
                            (KeyRangeDest.destination_instance range2)]))
             else (servers,
                   Inr [createMigrationPlan keyRange (instance_id most) (instance_id least)]))
      else (servers, Inr []))"
proof -
  have compl: "canMoveKeyRange k least \<longleftrightarrow> \<not> shouldSplitKeyRange k least" for k :: KeyRange
    by (auto simp: canMoveKeyRange_def shouldSplitKeyRange_def Let_def)
  show ?thesis
    by (simp add: slicerLoadBalancer_def assms Let_def compl split: option.splits)
qed

lemma balancer_empty: "slicerLoadBalancer [] w = ([], Inr [])"
  by (simp add: slicerLoadBalancer_def)

text \<open>
  The balancer returns, rather than throws, whenever the most loaded server owns a key
  range.
\<close>

lemma balancer_returns:
  assumes "\<forall>s \<in> set servers. key_ranges s \<noteq> []"
  shows "\<exists>plans. snd (slicerLoadBalancer servers w) = Inr plans"
proof (cases "servers = []")
  case True
  then show ?thesis by (simp add: balancer_empty)
next
  case False
  from scanServers_nonempty [OF False, of w] obtain m l where
    scan: "scanServers w servers (None, None) = (Some m, Some l)" and mem: "m \<in> set servers"
    by blast
  from assms mem have "key_ranges m \<noteq> []" by blast
  then obtain k ks where "key_ranges m = k # ks" by (cases "key_ranges m") auto
  then obtain c where c: "keyRangeToMove (key_ranges m) w = Some c"
    by (simp add: keyRangeToMove_def)
  from splitKeyRange_nonempty [OF False, of c w] obtain r1 r2 where
    sp: "splitKeyRange c servers w =
           (sort_key (\<lambda>a. calculateCombinedLoad a w) servers, Inr (r1, r2))" by blast
  show ?thesis by (simp add: balancer_unfold [OF scan] c sp)
qed

text \<open>On the specification's data model every score is non-negative.\<close>

lemma score_nonneg:
  assumes "nonNegativeWeights w" "nonNegativeTotals server"
  shows "0 \<le> calculateCombinedLoad server w"
  using assms
  by (simp add: nonNegativeWeights_def nonNegativeTotals_def calculateCombinedLoad_def)

text \<open>
  With one common score that is not negative the difference \<open>0\<close> does not exceed a
  tenth of the score.
\<close>

lemma equal_scores_no_plans:
  assumes "\<forall>s \<in> set servers. calculateCombinedLoad s w = c" "0 \<le> c"
  shows "slicerLoadBalancer servers w = (servers, Inr [])"
proof (cases "servers = []")
  case True
  then show ?thesis by (simp add: balancer_empty)
next
  case False
  from scanServers_nonempty [OF False, of w] obtain m l where
    scan: "scanServers w servers (None, None) = (Some m, Some l)"
    and mem: "m \<in> set servers" "l \<in> set servers" by blast
  from assms(1) mem have "calculateCombinedLoad m w = c" "calculateCombinedLoad l w = c"
    by auto
  with assms(2) show ?thesis by (simp add: balancer_unfold [OF scan])
qed

section \<open>The imbalance detector\<close>

text \<open>
  C1. After the single pass the most loaded server is the first server, in input order,
  whose score is the maximum, and the least loaded server is the first whose score is the
  minimum. Whenever the balancer returns a plan, the two servers satisfy
  \<open>score most - score least > 0.1 * score most\<close>. On every server list of the data
  model (non-negative totals, scored with non-negative weights) whose servers all have one
  and the same score, the balancer returns the empty plan list and leaves the list as it
  is.
\<close>

theorem imbalance_gate:
  "mostLoaded servers w = firstMaximal (\<lambda>s. calculateCombinedLoad s w) servers
   \<and> leastLoaded servers w = firstMinimal (\<lambda>s. calculateCombinedLoad s w) servers
   \<and> (snd (slicerLoadBalancer servers w) = Inr plans \<and> plans \<noteq> [] \<longrightarrow>
        (\<exists>most least. mostLoaded servers w = Some most \<and> leastLoaded servers w = Some least
           \<and> calculateCombinedLoad most w - calculateCombinedLoad least w
                > 0.1 * calculateCombinedLoad most w))
   \<and> (nonNegativeWeights w' \<and> (\<forall>s \<in> set servers'. nonNegativeTotals s)
        \<and> (\<forall>s \<in> set servers'. calculateCombinedLoad s w' = c) \<longrightarrow>
        slicerLoadBalancer servers' w' = (servers', Inr []))"
proof -
  have sel: "mostLoaded servers w = firstMaximal (\<lambda>s. calculateCombinedLoad s w) servers"
    "leastLoaded servers w = firstMinimal (\<lambda>s. calculateCombinedLoad s w) servers"
    by (simp_all add: mostLoaded_def leastLoaded_def scanServers_first)
  have gate: "\<exists>most least. mostLoaded servers w = Some most \<and> leastLoaded servers w = Some least
           \<and> calculateCombinedLoad most w - calculateCombinedLoad least w
                > 0.1 * calculateCombinedLoad most w"
    if h: "snd (slicerLoadBalancer servers w) = Inr plans" "plans \<noteq> []"
  proof (cases "servers = []")
    case True
    with h show ?thesis by (simp add: balancer_empty)
  next
    case False
    from scanServers_nonempty [OF False, of w] obtain m l where
      scan: "scanServers w servers (None, None) = (Some m, Some l)" by blast
    from h show ?thesis
      by (auto simp: balancer_unfold [OF scan] mostLoaded_def leastLoaded_def scan
          split: if_splits)
  qed
  have equal: "slicerLoadBalancer servers' w' = (servers', Inr [])"
    if h: "nonNegativeWeights w'" "\<forall>s \<in> set servers'. nonNegativeTotals s"
      "\<forall>s \<in> set servers'. calculateCombinedLoad s w' = c"
  proof (cases "servers' = []")
    case True
    then show ?thesis by (simp add: balancer_empty)
  next
    case False
    then obtain x where x: "x \<in> set servers'" by (cases servers') auto
    with h(1,2) have "0 \<le> calculateCombinedLoad x w'" by (simp add: score_nonneg)
    with h(3) x have "0 \<le> c" by auto
    with h(3) show ?thesis by (rule equal_scores_no_plans)
  qed
  from sel gate equal show ?thesis by blast
qed

text \<open>
  The gate at work: a returned plan on \<open>moveReports\<close>, and no plan on two servers of
  the data model with equal score.
\<close>

theorem imbalance_gate_witness:
  "snd (slicerLoadBalancer moveReports weights) =
      Inr [createMigrationPlan hotRange (str ''server-1234'') (str ''server-5678'')]
   \<and> (\<exists>most least. mostLoaded moveReports weights = Some most
         \<and> leastLoaded moveReports weights = Some least
         \<and> calculateCombinedLoad most weights - calculateCombinedLoad least weights
              > 0.1 * calculateCombinedLoad most weights)
   \<and> nonNegativeWeights weights
   \<and> list_all nonNegativeTotals balancedReports
   \<and> list_all (\<lambda>s. calculateCombinedLoad s weights = 151250000000000001 / 62500000000000)
        balancedReports
   \<and> slicerLoadBalancer balancedReports weights = (balancedReports, Inr [])"
proof -
  have plans: "snd (slicerLoadBalancer moveReports weights) =
      Inr [createMigrationPlan hotRange (str ''server-1234'') (str ''server-5678'')]"
    by (simp add: engine_defs fixture_defs)
  have wts: "nonNegativeWeights weights"
    by (simp add: nonNegativeWeights_def weights_def)
  have tot: "list_all nonNegativeTotals balancedReports"
    by (simp add: nonNegativeTotals_def fixture_defs)
  then have tot_all: "\<forall>s \<in> set balancedReports. nonNegativeTotals s"
    by (simp add: list_all_iff)
  have same: "list_all (\<lambda>s. calculateCombinedLoad s weights = 151250000000000001 / 62500000000000)
        balancedReports"
    by (simp add: calculateCombinedLoad_def fixture_defs)
  then have all: "\<forall>s \<in> set balancedReports.
      calculateCombinedLoad s weights = 151250000000000001 / 62500000000000"
    by (simp add: list_all_iff)
  have ne: "[createMigrationPlan hotRange (str ''server-1234'') (str ''server-5678'')] \<noteq> []"
    by simp
  from imbalance_gate [of moveReports weights
      "[createMigrationPlan hotRange (str ''server-1234'') (str ''server-5678'')]"
      weights balancedReports "151250000000000001 / 62500000000000"]
    plans ne wts tot tot_all same all
  show ?thesis by blast
qed

section \<open>The split/move policy decides every triggered call\<close>

text \<open>
  C2. The move test is the negation of the split test, and the split test is
  \<open>destination cpu total + range load > max_cpu_capacity\<close> or
  \<open>destination memory total + range memory > max_memory_capacity\<close>. Whenever the
  threshold triggers and the most loaded server has a candidate range, the balancer returns
  the two plans of the split when the split test holds for the least loaded server, and
  otherwise the one plan that moves the candidate whole from the most to the least loaded
  server, and then both projected values are within the capacities. Once the threshold
  has triggered the balancer never returns the empty plan list.
\<close>

theorem split_or_move:
  "canMoveKeyRange kr s = (\<not> shouldSplitKeyRange kr s)
   \<and> shouldSplitKeyRange kr s =
       (total_request_processing_load s + request_processing_load kr > max_cpu_capacity s
        \<or> total_memory_usage s + memory_usage kr > max_memory_capacity s)
   \<and> (mostLoaded servers w = Some most \<and> leastLoaded servers w = Some least
        \<and> calculateCombinedLoad most w - calculateCombinedLoad least w
             > 0.1 * calculateCombinedLoad most w
        \<and> keyRangeToMove (key_ranges most) w = Some candidate \<longrightarrow>
       (if shouldSplitKeyRange candidate least
        then (case splitKeyRange candidate servers w of
                (after, Inr (range1, range2)) \<Rightarrow>
                  slicerLoadBalancer servers w =
                    (after,
                     Inr [createMigrationPlan range1 (instance_id most)
                            (KeyRangeDest.destination_instance range1),
                          createMigrationPlan range2 (instance_id most)
                            (KeyRangeDest.destination_instance range2)])
              | (after, Inl e) \<Rightarrow> False)
        else slicerLoadBalancer servers w =
               (servers,
                Inr [createMigrationPlan candidate (instance_id most) (instance_id least)])
             \<and> total_request_processing_load least + request_processing_load candidate
                 \<le> max_cpu_capacity least
             \<and> total_memory_usage least + memory_usage candidate
                 \<le> max_memory_capacity least))
   \<and> (imbalanceDetected servers' w' \<longrightarrow> snd (slicerLoadBalancer servers' w') \<noteq> Inr [])"
proof -
  have compl: "canMoveKeyRange kr s = (\<not> shouldSplitKeyRange kr s)"
    by (auto simp: canMoveKeyRange_def shouldSplitKeyRange_def Let_def)
  have split_test: "shouldSplitKeyRange kr s =
       (total_request_processing_load s + request_processing_load kr > max_cpu_capacity s
        \<or> total_memory_usage s + memory_usage kr > max_memory_capacity s)"
    by (simp add: shouldSplitKeyRange_def Let_def)
  have policy: "(if shouldSplitKeyRange candidate least
        then (case splitKeyRange candidate servers w of
                (after, Inr (range1, range2)) \<Rightarrow>
                  slicerLoadBalancer servers w =
                    (after,
                     Inr [createMigrationPlan range1 (instance_id most)
                            (KeyRangeDest.destination_instance range1),
                          createMigrationPlan range2 (instance_id most)
                            (KeyRangeDest.destination_instance range2)])
              | (after, Inl e) \<Rightarrow> False)
        else slicerLoadBalancer servers w =
               (servers,
                Inr [createMigrationPlan candidate (instance_id most) (instance_id least)])
             \<and> total_request_processing_load least + request_processing_load candidate
                 \<le> max_cpu_capacity least
             \<and> total_memory_usage least + memory_usage candidate
                 \<le> max_memory_capacity least)"
    if h: "mostLoaded servers w = Some most" "leastLoaded servers w = Some least"
      "calculateCombinedLoad most w - calculateCombinedLoad least w
             > 0.1 * calculateCombinedLoad most w"
      "keyRangeToMove (key_ranges most) w = Some candidate"
  proof -
    from h(1,2) have scan: "scanServers w servers (None, None) = (Some most, Some least)"
      by (simp add: mostLoaded_def leastLoaded_def prod_eq_iff)
    then have ne: "servers \<noteq> []" by auto
    from splitKeyRange_nonempty [OF ne, of candidate w] obtain r1 r2 where
      sp: "splitKeyRange candidate servers w =
             (sort_key (\<lambda>a. calculateCombinedLoad a w) servers, Inr (r1, r2))" by blast
    show ?thesis
      using h(3,4)
      by (simp add: balancer_unfold [OF scan] sp shouldSplitKeyRange_def Let_def not_less)
  qed
  have noop: "snd (slicerLoadBalancer servers' w') \<noteq> Inr []" if h: "imbalanceDetected servers' w'"
  proof -
    from h obtain m l where scan: "scanServers w' servers' (None, None) = (Some m, Some l)"
      and thr: "calculateCombinedLoad m w' - calculateCombinedLoad l w'
                  > 0.1 * calculateCombinedLoad m w'"
      by (auto simp: imbalanceDetected_def split: prod.splits option.splits)
    then have ne: "servers' \<noteq> []" by auto
    show ?thesis
    proof (cases "keyRangeToMove (key_ranges m) w'")
      case None
      then show ?thesis using thr by (simp add: balancer_unfold [OF scan])
    next
      case (Some c)
      from splitKeyRange_nonempty [OF ne, of c w'] obtain r1 r2 where
        sp: "splitKeyRange c servers' w' =
               (sort_key (\<lambda>a. calculateCombinedLoad a w') servers', Inr (r1, r2))" by blast
      show ?thesis using thr Some by (simp add: balancer_unfold [OF scan] sp)
    qed
  qed
  from compl split_test policy noop show ?thesis by blast
qed

text \<open>
  The policy on \<open>moveReports\<close>, where the second server has room: the threshold
  triggers, the split test fails, and the hot range moves whole.
\<close>

theorem split_or_move_witness:
  "mostLoaded moveReports weights = Some server1234
   \<and> leastLoaded moveReports weights = Some roomy5678
   \<and> calculateCombinedLoad server1234 weights - calculateCombinedLoad roomy5678 weights
        > 0.1 * calculateCombinedLoad server1234 weights
   \<and> keyRangeToMove (key_ranges server1234) weights = Some hotRange
   \<and> \<not> shouldSplitKeyRange hotRange roomy5678
   \<and> slicerLoadBalancer moveReports weights =
        (moveReports,
         Inr [createMigrationPlan hotRange (instance_id server1234) (instance_id roomy5678)])
   \<and> total_request_processing_load roomy5678 + request_processing_load hotRange
        \<le> max_cpu_capacity roomy5678
   \<and> total_memory_usage roomy5678 + memory_usage hotRange \<le> max_memory_capacity roomy5678
   \<and> imbalanceDetected moveReports weights
   \<and> snd (slicerLoadBalancer moveReports weights) \<noteq> Inr []"
proof -
  have hyp: "mostLoaded moveReports weights = Some server1234"
    "leastLoaded moveReports weights = Some roomy5678"
    "calculateCombinedLoad server1234 weights - calculateCombinedLoad roomy5678 weights
        > 0.1 * calculateCombinedLoad server1234 weights"
    "keyRangeToMove (key_ranges server1234) weights = Some hotRange"
    by (simp_all add: mostLoaded_def leastLoaded_def calculateCombinedLoad_def keyRangeToMove_def
        calculateKeyRangeLoad_def fixture_defs)
  have nosplit: "\<not> shouldSplitKeyRange hotRange roomy5678"
    by (simp add: shouldSplitKeyRange_def fixture_defs)
  have imb: "imbalanceDetected moveReports weights"
    by (simp add: imbalanceDetected_def calculateCombinedLoad_def fixture_defs)
  note inst = split_or_move [where kr = hotRange and s = roomy5678 and servers = moveReports
      and w = weights and most = server1234 and least = roomy5678 and candidate = hotRange
      and servers' = moveReports and w' = weights]
  from inst hyp nosplit imb show ?thesis by auto
qed

section \<open>The range splitter\<close>

text \<open>
  What the splitter computes. On keys that have a first character the midpoint key is the
  single character whose code is the floor of the average of the codes of the first
  characters of the two keys. On a fleet that is not empty the splitter sorts all servers
  ascending by score, a permutation of the fleet whose first member is least loaded of
  all; range A ends at the midpoint and takes the identifier of the first server of the
  sorted fleet; range B starts at the midpoint and takes the identifier of the second
  server of the sorted fleet when there is one and its identifier is not the empty string,
  and the identifier of the first server otherwise.
\<close>

lemma splitKeyRange_destinations:
  "calculateMidKey (c # cs) (d # ds) = [of_nat ((unat c + unat d) div 2)]
   \<and> unat (of_nat ((unat c + unat d) div 2) :: 16 word) = (unat c + unat d) div 2
   \<and> (servers \<noteq> [] \<longrightarrow>
        (case splitKeyRange keyRange servers w of
           (sortedServers, Inr (range1, range2)) \<Rightarrow>
             sortedServers = sort_key (\<lambda>a. calculateCombinedLoad a w) servers
             \<and> sorted (map (\<lambda>a. calculateCombinedLoad a w) sortedServers)
             \<and> mset sortedServers = mset servers
             \<and> (\<forall>s \<in> set servers.
                   calculateCombinedLoad (sortedServers ! 0) w \<le> calculateCombinedLoad s w)
             \<and> KeyRange.end_key range1 =
                 calculateMidKey (KeyRange.start_key keyRange) (KeyRange.end_key keyRange)
             \<and> KeyRange.start_key range2 =
                 calculateMidKey (KeyRange.start_key keyRange) (KeyRange.end_key keyRange)
             \<and> KeyRangeDest.destination_instance range1 = instance_id (sortedServers ! 0)
             \<and> KeyRangeDest.destination_instance range2 =
                 (if 2 \<le> length sortedServers \<and> instance_id (sortedServers ! 1) \<noteq> []
                  then instance_id (sortedServers ! 1)
                  else instance_id (sortedServers ! 0))
         | (sortedServers, Inl e) \<Rightarrow> False))"
proof -
  have split: "(case splitKeyRange keyRange servers w of
           (sortedServers, Inr (range1, range2)) \<Rightarrow>
             sortedServers = sort_key (\<lambda>a. calculateCombinedLoad a w) servers
             \<and> sorted (map (\<lambda>a. calculateCombinedLoad a w) sortedServers)
             \<and> mset sortedServers = mset servers
             \<and> (\<forall>s \<in> set servers.
                   calculateCombinedLoad (sortedServers ! 0) w \<le> calculateCombinedLoad s w)
             \<and> KeyRange.end_key range1 =
                 calculateMidKey (KeyRange.start_key keyRange) (KeyRange.end_key keyRange)
             \<and> KeyRange.start_key range2 =
                 calculateMidKey (KeyRange.start_key keyRange) (KeyRange.end_key keyRange)
             \<and> KeyRangeDest.destination_instance range1 = instance_id (sortedServers ! 0)
             \<and> KeyRangeDest.destination_instance range2 =
                 (if 2 \<le> length sortedServers \<and> instance_id (sortedServers ! 1) \<noteq> []
                  then instance_id (sortedServers ! 1)
                  else instance_id (sortedServers ! 0))
         | (sortedServers, Inl e) \<Rightarrow> False)" if ne: "servers \<noteq> []"
  proof -
    let ?f = "\<lambda>a. calculateCombinedLoad a w"
    from sort_key_nonempty [OF ne, of ?f] obtain s0 rest where
      srt: "sort_key ?f servers = s0 # rest" by blast
    have least: "\<forall>s \<in> set servers. ?f (sort_key ?f servers ! 0) \<le> ?f s"
      by (rule sort_key_head_least [OF ne])
    have ascending: "sorted (map ?f (sort_key ?f servers))" by (rule sorted_sort_key)
    have perm: "mset (sort_key ?f servers) = mset servers" by simp
    show ?thesis
      using least ascending perm
      by (cases rest) (simp_all add: splitKeyRange_def Let_def srt)
  qed
  from split calculateMidKey_first_chars [of c cs d ds] midpoint_no_wrap [of c d]
  show ?thesis by blast
qed

text \<open>
  C3. On SPLIT, range A goes to the least loaded server of the whole fleet and range B
  to the second least loaded server, with the least loaded server as the fallback of a
  fleet of fewer than two members. In the fleet of \<open>server-1234\<close>, \<open>server-5678\<close>
  and a third server whose identifier is the empty string, the third server is second
  least loaded in a fleet of three. The balancer splits the hot range at the midpoint
  \<open>a\<close>, sends range A to \<open>server-5678\<close>, and sends range B to \<open>server-5678\<close>
  too, the least loaded server, and not to the second least loaded one.
\<close>

theorem split_destinations_empty_id:
  "sort_key (\<lambda>a. calculateCombinedLoad a weights) [server1234, server5678, anonymousServer]
     = [server5678, anonymousServer, server1234]
   \<and> calculateCombinedLoad server5678 weights < calculateCombinedLoad anonymousServer weights
   \<and> calculateCombinedLoad anonymousServer weights < calculateCombinedLoad server1234 weights
   \<and> instance_id anonymousServer = []
   \<and> instance_id server5678 = str ''server-5678''
   \<and> slicerLoadBalancer [server1234, server5678, anonymousServer] weights =
       ([server5678, anonymousServer, server1234],
        Inr [\<lparr>start_key = str ''a000'', end_key = str ''a'',
              source_instance = str ''server-1234'', destination_instance = str ''server-5678''\<rparr>,
             \<lparr>start_key = str ''a'', end_key = str ''a999'',
              source_instance = str ''server-1234'', destination_instance = str ''server-5678''\<rparr>])"
  by (simp add: engine_defs fixture_defs)

text \<open>
  C4. On a fleet that is not empty, splitting a range with metrics
  \<open>(f, s, p, m)\<close> yields exactly two ranges, each with metrics
  \<open>(f/2, s/2, p/2, m/2)\<close>; range A keeps the start key and ends at the computed
  midpoint, range B starts at that midpoint and keeps the end key. The key intervals
  \<open>[start_key, midpoint)\<close> and \<open>[midpoint, end_key]\<close> union back to
  \<open>[start_key, end_key]\<close> whenever \<open>start_key \<le> midpoint \<le> end_key\<close>.
\<close>

theorem split_halves:
  "servers \<noteq> [] \<longrightarrow>
     (case splitKeyRange keyRange servers w of
        (sortedServers, Inr (range1, range2)) \<Rightarrow>
          data_access_frequency range1 = data_access_frequency keyRange / 2
          \<and> storage_utilization range1 = storage_utilization keyRange / 2
          \<and> request_processing_load range1 = request_processing_load keyRange / 2
          \<and> memory_usage range1 = memory_usage keyRange / 2
          \<and> data_access_frequency range2 = data_access_frequency keyRange / 2
          \<and> storage_utilization range2 = storage_utilization keyRange / 2
          \<and> request_processing_load range2 = request_processing_load keyRange / 2
          \<and> memory_usage range2 = memory_usage keyRange / 2
          \<and> KeyRange.start_key range1 = KeyRange.start_key keyRange
          \<and> KeyRange.end_key range1 =
              calculateMidKey (KeyRange.start_key keyRange) (KeyRange.end_key keyRange)
          \<and> KeyRange.start_key range2 = KeyRange.end_key range1
          \<and> KeyRange.end_key range2 = KeyRange.end_key keyRange
          \<and> (KeyRange.start_key keyRange \<le> KeyRange.end_key range1
               \<and> KeyRange.end_key range1 \<le> KeyRange.end_key keyRange \<longrightarrow>
               halfOpenInterval (KeyRange.start_key range1) (KeyRange.end_key range1)
                 \<union> closedInterval (KeyRange.start_key range2) (KeyRange.end_key range2)
               = closedInterval (KeyRange.start_key keyRange) (KeyRange.end_key keyRange))
      | (sortedServers, Inl e) \<Rightarrow> False)"
proof
  assume ne: "servers \<noteq> []"
  let ?f = "\<lambda>a. calculateCombinedLoad a w"
  from sort_key_nonempty [OF ne, of ?f] obtain s0 rest where
    srt: "sort_key ?f servers = s0 # rest" by blast
  have union: "halfOpenInterval lo mid \<union> closedInterval mid hi = closedInterval lo hi"
    if "lo \<le> mid" "mid \<le> hi" for lo mid hi :: js_string
    using that by (auto simp: halfOpenInterval_def closedInterval_def)
  show "case splitKeyRange keyRange servers w of
        (sortedServers, Inr (range1, range2)) \<Rightarrow>
          data_access_frequency range1 = data_access_frequency keyRange / 2
          \<and> storage_utilization range1 = storage_utilization keyRange / 2
          \<and> request_processing_load range1 = request_processing_load keyRange / 2
          \<and> memory_usage range1 = memory_usage keyRange / 2
          \<and> data_access_frequency range2 = data_access_frequency keyRange / 2
          \<and> storage_utilization range2 = storage_utilization keyRange / 2
          \<and> request_processing_load range2 = request_processing_load keyRange / 2
          \<and> memory_usage range2 = memory_usage keyRange / 2
          \<and> KeyRange.start_key range1 = KeyRange.start_key keyRange
          \<and> KeyRange.end_key range1 =
              calculateMidKey (KeyRange.start_key keyRange) (KeyRange.end_key keyRange)
          \<and> KeyRange.start_key range2 = KeyRange.end_key range1
          \<and> KeyRange.end_key range2 = KeyRange.end_key keyRange
          \<and> (KeyRange.start_key keyRange \<le> KeyRange.end_key range1
               \<and> KeyRange.end_key range1 \<le> KeyRange.end_key keyRange \<longrightarrow>
               halfOpenInterval (KeyRange.start_key range1) (KeyRange.end_key range1)
                 \<union> closedInterval (KeyRange.start_key range2) (KeyRange.end_key range2)
               = closedInterval (KeyRange.start_key keyRange) (KeyRange.end_key keyRange))
      | (sortedServers, Inl e) \<Rightarrow> False"
    by (simp add: splitKeyRange_def Let_def srt union)
qed

text \<open>The range \<open>a\<close>-\<open>c\<close> splits at \<open>b\<close>, and its halves union back to it.\<close>

theorem split_halves_witness:
  "reports \<noteq> []
   \<and> splitKeyRange orderedRange reports weights =
       ([server5678, server1234], Inr (orderedRangeA, orderedRangeB))
   \<and> str ''a'' \<le> str ''b'' \<and> str ''b'' \<le> str ''c''
   \<and> halfOpenInterval (str ''a'') (str ''b'') \<union> closedInterval (str ''b'') (str ''c'')
       = closedInterval (str ''a'') (str ''c'')"
proof -
  have ne: "reports \<noteq> []" by (simp add: reports_def)
  have ev: "splitKeyRange orderedRange reports weights =
      ([server5678, server1234], Inr (orderedRangeA, orderedRangeB))"
    by (simp add: engine_defs fixture_defs)
  have ord: "str ''a'' \<le> str ''b''" "str ''b'' \<le> str ''c''"
    by (simp_all add: str_def)
  have keys: "KeyRange.start_key orderedRange = str ''a''"
    "KeyRange.end_key orderedRange = str ''c''"
    "KeyRange.start_key orderedRangeA = str ''a''" "KeyRange.end_key orderedRangeA = str ''b''"
    "KeyRange.start_key orderedRangeB = str ''b''" "KeyRange.end_key orderedRangeB = str ''c''"
    by (simp_all add: fixture_defs)
  note inst = split_halves [where servers = reports and keyRange = orderedRange and w = weights,
      THEN mp, OF ne, unfolded ev prod.case sum.case keys]
  from inst ne ev ord show ?thesis by blast
qed

text \<open>
  The hot range \<open>a000\<close>-\<open>a999\<close> of the reference fleet splits at \<open>a\<close>: the key
  \<open>a\<close> lies in the interval of range B and not in the original interval, so the two
  intervals do not union back to the original.
\<close>

theorem split_halves_counterexample:
  "splitKeyRange hotRange reports weights = ([server5678, server1234], Inr (hotRangeA, hotRangeB))
   \<and> str ''a'' \<in> closedInterval (KeyRange.start_key hotRangeB) (KeyRange.end_key hotRangeB)
   \<and> str ''a'' \<notin> closedInterval (KeyRange.start_key hotRange) (KeyRange.end_key hotRange)
   \<and> halfOpenInterval (KeyRange.start_key hotRangeA) (KeyRange.end_key hotRangeA)
        \<union> closedInterval (KeyRange.start_key hotRangeB) (KeyRange.end_key hotRangeB)
       \<noteq> closedInterval (KeyRange.start_key hotRange) (KeyRange.end_key hotRange)"
proof -
  have ev: "splitKeyRange hotRange reports weights =
      ([server5678, server1234], Inr (hotRangeA, hotRangeB))"
    by (simp add: engine_defs fixture_defs)
  have inB: "str ''a'' \<in> closedInterval (KeyRange.start_key hotRangeB) (KeyRange.end_key hotRangeB)"
    by (simp add: closedInterval_def fixture_defs)
  have out: "str ''a'' \<notin> closedInterval (KeyRange.start_key hotRange) (KeyRange.end_key hotRange)"
    by (simp add: closedInterval_def fixture_defs)
  from inB out have "halfOpenInterval (KeyRange.start_key hotRangeA) (KeyRange.end_key hotRangeA)
        \<union> closedInterval (KeyRange.start_key hotRangeB) (KeyRange.end_key hotRangeB)
       \<noteq> closedInterval (KeyRange.start_key hotRange) (KeyRange.end_key hotRange)"
    by blast
  with ev inB out show ?thesis by blast
qed

text \<open>
  C10. On the reference fleet every input range has \<open>start_key \<le> end_key\<close>, and the
  range-A plan that the split path emits runs from \<open>a000\<close> to the midpoint \<open>a\<close>,
  which is smaller than \<open>a000\<close>: the emitted plan does not have
  \<open>start_key \<le> end_key\<close>.
\<close>

theorem inverted_plan_keys:
  "list_all (\<lambda>r. KeyRange.start_key r \<le> KeyRange.end_key r) (concat (map key_ranges reports))
   \<and> snd (slicerLoadBalancer reports weights) =
       Inr [createMigrationPlan hotRangeA (str ''server-1234'') (str ''server-5678''),
            createMigrationPlan hotRangeB (str ''server-1234'') (str ''server-1234'')]
   \<and> end_key (createMigrationPlan hotRangeA (str ''server-1234'') (str ''server-5678'')) = str ''a''
   \<and> start_key (createMigrationPlan hotRangeA (str ''server-1234'') (str ''server-5678''))
       = str ''a000''
   \<and> str ''a'' < str ''a000''
   \<and> \<not> (start_key (createMigrationPlan hotRangeA (str ''server-1234'') (str ''server-5678''))
          \<le> end_key (createMigrationPlan hotRangeA (str ''server-1234'') (str ''server-5678'')))"
  by (simp add: engine_defs fixture_defs)

section \<open>The plans returned\<close>

text \<open>
  C5. Whenever the balancer returns, it returns at most two plans. When it returns
  exactly two, they are the plan of range A followed by the plan of range B of the split
  of the candidate range, and both have the most loaded server as their source. When no
  imbalance is detected the balancer returns no plan and leaves the server list as it is.
\<close>

theorem at_most_two_plans:
  "(snd (slicerLoadBalancer servers w) = Inr plans \<longrightarrow>
      length plans \<le> 2
      \<and> (length plans = 2 \<longrightarrow>
           (\<exists>most least candidate after range1 range2.
              mostLoaded servers w = Some most \<and> leastLoaded servers w = Some least
              \<and> keyRangeToMove (key_ranges most) w = Some candidate
              \<and> splitKeyRange candidate servers w = (after, Inr (range1, range2))
              \<and> plans = [createMigrationPlan range1 (instance_id most)
                            (KeyRangeDest.destination_instance range1),
                          createMigrationPlan range2 (instance_id most)
                            (KeyRangeDest.destination_instance range2)]
              \<and> source_instance (plans ! 0) = instance_id most
              \<and> source_instance (plans ! 1) = instance_id most)))
   \<and> (\<not> imbalanceDetected servers' w' \<longrightarrow> slicerLoadBalancer servers' w' = (servers', Inr []))"
proof -
  have quiet: "slicerLoadBalancer servers' w' = (servers', Inr [])"
    if h: "\<not> imbalanceDetected servers' w'"
  proof (cases "servers' = []")
    case True
    then show ?thesis by (simp add: balancer_empty)
  next
    case False
    from scanServers_nonempty [OF False, of w'] obtain m l where
      scan: "scanServers w' servers' (None, None) = (Some m, Some l)" by blast
    with h show ?thesis
      by (simp add: imbalanceDetected_def balancer_unfold [OF scan])
  qed
  have bound: "length plans \<le> 2
      \<and> (length plans = 2 \<longrightarrow>
           (\<exists>most least candidate after range1 range2.
              mostLoaded servers w = Some most \<and> leastLoaded servers w = Some least
              \<and> keyRangeToMove (key_ranges most) w = Some candidate
              \<and> splitKeyRange candidate servers w = (after, Inr (range1, range2))
              \<and> plans = [createMigrationPlan range1 (instance_id most)
                            (KeyRangeDest.destination_instance range1),
                          createMigrationPlan range2 (instance_id most)
                            (KeyRangeDest.destination_instance range2)]
              \<and> source_instance (plans ! 0) = instance_id most
              \<and> source_instance (plans ! 1) = instance_id most))"
    if h: "snd (slicerLoadBalancer servers w) = Inr plans"
  proof (cases "servers = []")
    case True
    with h show ?thesis by (simp add: balancer_empty)
  next
    case False
    from scanServers_nonempty [OF False, of w] obtain m l where
      scan: "scanServers w servers (None, None) = (Some m, Some l)" by blast
    then have ml: "mostLoaded servers w = Some m" "leastLoaded servers w = Some l"
      by (simp_all add: mostLoaded_def leastLoaded_def)
    show ?thesis
    proof (cases "keyRangeToMove (key_ranges m) w")
      case None
      with h show ?thesis
        by (auto simp: balancer_unfold [OF scan] split: if_splits)
    next
      case (Some c)
      from splitKeyRange_nonempty [OF False, of c w] obtain r1 r2 where
        sp: "splitKeyRange c servers w =
               (sort_key (\<lambda>a. calculateCombinedLoad a w) servers, Inr (r1, r2))" by blast
      from h show ?thesis
        by (auto simp: balancer_unfold [OF scan] Some sp ml createMigrationPlan_def
            split: if_splits)
    qed
  qed
  from quiet bound show ?thesis by blast
qed

text \<open>Two plans from one source on the reference fleet, none on the balanced fleet.\<close>

theorem at_most_two_plans_witness:
  "snd (slicerLoadBalancer reports weights) =
     Inr [createMigrationPlan hotRangeA (str ''server-1234'') (str ''server-5678''),
          createMigrationPlan hotRangeB (str ''server-1234'') (str ''server-1234'')]
   \<and> length [createMigrationPlan hotRangeA (str ''server-1234'') (str ''server-5678''),
          createMigrationPlan hotRangeB (str ''server-1234'') (str ''server-1234'')] = 2
   \<and> (\<exists>most. mostLoaded reports weights = Some most
        \<and> source_instance ([createMigrationPlan hotRangeA (str ''server-1234'') (str ''server-5678''),
             createMigrationPlan hotRangeB (str ''server-1234'') (str ''server-1234'')] ! 0)
            = instance_id most
        \<and> source_instance ([createMigrationPlan hotRangeA (str ''server-1234'') (str ''server-5678''),
             createMigrationPlan hotRangeB (str ''server-1234'') (str ''server-1234'')] ! 1)
            = instance_id most)
   \<and> \<not> imbalanceDetected balancedReports weights
   \<and> slicerLoadBalancer balancedReports weights = (balancedReports, Inr [])"
proof -
  let ?plans = "[createMigrationPlan hotRangeA (str ''server-1234'') (str ''server-5678''),
          createMigrationPlan hotRangeB (str ''server-1234'') (str ''server-1234'')]"
  have ev: "snd (slicerLoadBalancer reports weights) = Inr ?plans"
    by (simp add: engine_defs fixture_defs)
  have two: "length ?plans = 2" by simp
  have quiet: "\<not> imbalanceDetected balancedReports weights"
    by (simp add: imbalanceDetected_def calculateCombinedLoad_def fixture_defs)
  from at_most_two_plans [where servers = reports and w = weights and plans = ?plans
      and servers' = balancedReports and w' = weights] ev two quiet
  show ?thesis by blast
qed

section \<open>Small fleets\<close>

text \<open>
  C8. The empty fleet yields the empty plan list, and no error. A fleet of exactly one
  server of the data model (non-negative totals, scored with non-negative weights) yields
  the empty plan list, whatever its load, and the list stays as it is.
\<close>

theorem small_fleet_no_plans:
  "slicerLoadBalancer [] w = ([], Inr [])
   \<and> (nonNegativeWeights w \<and> nonNegativeTotals server \<longrightarrow>
        slicerLoadBalancer [server] w = ([server], Inr []))"
proof -
  have single: "slicerLoadBalancer [server] w = ([server], Inr [])"
    if h: "nonNegativeWeights w" "nonNegativeTotals server"
  proof -
    from h have "0 \<le> calculateCombinedLoad server w" by (rule score_nonneg)
    then show ?thesis by (simp add: slicerLoadBalancer_def)
  qed
  from single balancer_empty [of w] show ?thesis by blast
qed

theorem small_fleet_no_plans_witness:
  "nonNegativeWeights weights \<and> nonNegativeTotals server1234
   \<and> calculateCombinedLoad server1234 weights = 164531250000000001 / 31250000000000
   \<and> slicerLoadBalancer [server1234] weights = ([server1234], Inr [])"
proof -
  have wts: "nonNegativeWeights weights"
    by (simp add: nonNegativeWeights_def weights_def)
  have tot: "nonNegativeTotals server1234"
    by (simp add: nonNegativeTotals_def server1234_def)
  have load: "calculateCombinedLoad server1234 weights = 164531250000000001 / 31250000000000"
    by (simp add: calculateCombinedLoad_def fixture_defs)
  from small_fleet_no_plans [of weights server1234] wts tot load show ?thesis by blast
qed

section \<open>The caller's snapshot\<close>

text \<open>
  C9. After every call the caller's server list holds the same reports as before, each
  with all its fields (so the image of the list under any function of a report, such as a
  total, is the same multiset). The list is either exactly as it was, or it is the list
  sorted ascending by score and the call has returned the two plans of the split path.
\<close>

theorem snapshot_frame:
  "mset (fst (slicerLoadBalancer servers w)) = mset servers
   \<and> image_mset g (mset (fst (slicerLoadBalancer servers w))) = image_mset g (mset servers)
   \<and> (fst (slicerLoadBalancer servers w) = servers
       \<or> fst (slicerLoadBalancer servers w) = sort_key (\<lambda>a. calculateCombinedLoad a w) servers
          \<and> (\<exists>planA planB. snd (slicerLoadBalancer servers w) = Inr [planA, planB]))"
proof -
  have alt: "fst (slicerLoadBalancer servers w) = servers
       \<or> fst (slicerLoadBalancer servers w) = sort_key (\<lambda>a. calculateCombinedLoad a w) servers
          \<and> (\<exists>planA planB. snd (slicerLoadBalancer servers w) = Inr [planA, planB])"
  proof (cases "servers = []")
    case True
    then show ?thesis by (simp add: balancer_empty)
  next
    case False
    from scanServers_nonempty [OF False, of w] obtain m l where
      scan: "scanServers w servers (None, None) = (Some m, Some l)" by blast
    show ?thesis
    proof (cases "keyRangeToMove (key_ranges m) w")
      case None
      then show ?thesis by (simp add: balancer_unfold [OF scan])
    next
      case (Some c)
      from splitKeyRange_nonempty [OF False, of c w] obtain r1 r2 where
        sp: "splitKeyRange c servers w =
               (sort_key (\<lambda>a. calculateCombinedLoad a w) servers, Inr (r1, r2))" by blast
      show ?thesis by (simp add: balancer_unfold [OF scan] Some sp)
    qed
  qed
  then have perm: "mset (fst (slicerLoadBalancer servers w)) = mset servers"
    by auto
  from alt perm show ?thesis by simp
qed

section \<open>The load scorer is one formula\<close>

text \<open>
  C7. The score of a server and the score of a key range are the same weighted sum
  \<open>cpu * cpuWeight + storage * storageWeight + access * accessFrequencyWeight +
  memory * memoryWeight\<close> of their four metrics, in the parameterised variant and, with
  its built-in weights, in the fixed-weight variant. The scorer is a total function of its
  arguments alone, and a weight of zero removes its dimension from the score.
\<close>

theorem load_score_formula:
  "calculateCombinedLoad server w =
     score (total_request_processing_load server) (total_storage_utilization server)
       (total_data_access_frequency server) (total_memory_usage server) w
   \<and> calculateKeyRangeLoad kr w =
     score (request_processing_load kr) (storage_utilization kr)
       (data_access_frequency kr) (memory_usage kr) w
   \<and> calculateCombinedLoad_fixed server = calculateCombinedLoad server fixedWeights
   \<and> calculateKeyRangeLoad_fixed kr = calculateKeyRangeLoad kr fixedWeights
   \<and> score cpu storage access memory (w\<lparr>cpuWeight := 0\<rparr>) =
       score cpu' storage access memory (w\<lparr>cpuWeight := 0\<rparr>)
   \<and> score cpu storage access memory (w\<lparr>storageWeight := 0\<rparr>) =
       score cpu storage' access memory (w\<lparr>storageWeight := 0\<rparr>)
   \<and> score cpu storage access memory (w\<lparr>accessFrequencyWeight := 0\<rparr>) =
       score cpu storage access' memory (w\<lparr>accessFrequencyWeight := 0\<rparr>)
   \<and> score cpu storage access memory (w\<lparr>memoryWeight := 0\<rparr>) =
       score cpu storage access memory' (w\<lparr>memoryWeight := 0\<rparr>)"
  by (simp add: calculateCombinedLoad_def calculateKeyRangeLoad_def score_def
      calculateCombinedLoad_fixed_def calculateKeyRangeLoad_fixed_def fixedWeights_def)

section \<open>The reference fixture\<close>

text \<open>
  C6. On the two reports of the reference test, with the module's default weights, the
  first server scores higher than the second by more than a tenth of its score, its
  hottest range is \<open>a000\<close>-\<open>a999\<close>, moving it whole would bring the second server to
  \<open>5500 > 4000\<close>, the midpoint key is \<open>a\<close>, the sorted fleet is the second server and
  then the first, and the balancer returns exactly the plans
  \<open>(a000, a, server-1234, server-5678)\<close> and \<open>(a, a999, server-1234, server-1234)\<close>.
\<close>

theorem reference_fixture:
  "mostLoaded reports weights = Some server1234
   \<and> leastLoaded reports weights = Some server5678
   \<and> imbalanceDetected reports weights
   \<and> keyRangeToMove (key_ranges server1234) weights = Some hotRange
   \<and> KeyRange.start_key hotRange = str ''a000'' \<and> KeyRange.end_key hotRange = str ''a999''
   \<and> request_processing_load hotRange = 3500
   \<and> total_request_processing_load server5678 + request_processing_load hotRange = 5500
   \<and> max_cpu_capacity server5678 = 4000
   \<and> shouldSplitKeyRange hotRange server5678
   \<and> calculateMidKey (str ''a000'') (str ''a999'') = str ''a''
   \<and> sort_key (\<lambda>a. calculateCombinedLoad a weights) reports = [server5678, server1234]
   \<and> slicerLoadBalancer reports weights =
       ([server5678, server1234],
        Inr [\<lparr>start_key = str ''a000'', end_key = str ''a'',
              source_instance = str ''server-1234'', destination_instance = str ''server-5678''\<rparr>,
             \<lparr>start_key = str ''a'', end_key = str ''a999'',
              source_instance = str ''server-1234'', destination_instance = str ''server-1234''\<rparr>])"
  by (simp add: mostLoaded_def leastLoaded_def imbalanceDetected_def engine_defs fixture_defs)

end
